theory Spec2Isabelle
  imports Complex_Main
begin

section \<open>JavaScript values\<close>

text \<open>
  The run-time values that reach the library. A function value is a closure, identified
  by a number, with the string of its own property \<^verbatim>\<open>name\<close> and the properties that were
  added to it (the static members of a class, for instance); what a closure computes
  when it is used as a type test is given by a separate table (see \<open>addType\<close>). A plain
  object carries its own properties. Properties are kept as an association list, in
  which the first binding of a key is the one that is read. Arrays, dates and regular
  expressions are taken without added properties. Numbers are the finite ones, \<open>NaN\<close>
  and the two infinities.
\<close>

datatype jsval =
    JUndefined
  | JNull
  | JBoolean bool
  | JNumber real
  | JNaN
  | JInfinity bool
  | JString string
  | JSymbol string
  | JFunction nat string "(string \<times> jsval) list"
  | JArray "jsval list"
  | JDate real
  | JRegExp string
  | JObject "(string \<times> jsval) list"

text \<open>The \<^verbatim>\<open>typeof\<close> operator.\<close>

fun typeof :: "jsval \<Rightarrow> string" where
  "typeof JUndefined = ''undefined''"
| "typeof JNull = ''object''"
| "typeof (JBoolean b) = ''boolean''"
| "typeof (JNumber r) = ''number''"
| "typeof JNaN = ''number''"
| "typeof (JInfinity b) = ''number''"
| "typeof (JString s) = ''string''"
| "typeof (JSymbol s) = ''symbol''"
| "typeof (JFunction f n ps) = ''function''"
| "typeof (JArray xs) = ''object''"
| "typeof (JDate t) = ''object''"
| "typeof (JRegExp r) = ''object''"
| "typeof (JObject ps) = ''object''"

text \<open>\<^verbatim>\<open>Array.isArray(x)\<close>, \<^verbatim>\<open>x instanceof Date\<close> and \<^verbatim>\<open>x instanceof RegExp\<close>.\<close>

fun isArray :: "jsval \<Rightarrow> bool" where
  "isArray (JArray xs) = True"
| "isArray x = False"

fun instanceofDate :: "jsval \<Rightarrow> bool" where
  "instanceofDate (JDate t) = True"
| "instanceofDate x = False"

fun instanceofRegExp :: "jsval \<Rightarrow> bool" where
  "instanceofRegExp (JRegExp r) = True"
| "instanceofRegExp x = False"

text \<open>
  Truthiness, as read by \<^verbatim>\<open>!x\<close>: the falsy values are \<^verbatim>\<open>undefined\<close>, \<^verbatim>\<open>null\<close>,
  \<^verbatim>\<open>false\<close>, zero, \<^verbatim>\<open>NaN\<close> and the empty string.
\<close>

fun truthy :: "jsval \<Rightarrow> bool" where
  "truthy JUndefined = False"
| "truthy JNull = False"
| "truthy (JBoolean b) = b"
| "truthy (JNumber r) = (r \<noteq> 0)"
| "truthy JNaN = False"
| "truthy (JString s) = (s \<noteq> [])"
| "truthy x = True"

text \<open>
  Reading the property \<open>k\<close> of a value that is neither \<^verbatim>\<open>null\<close> nor \<^verbatim>\<open>undefined\<close>.
  A plain object gives its own property, a function gives an added property or, for the
  key \<^verbatim>\<open>name\<close>, its name; every other read gives \<^verbatim>\<open>undefined\<close>. The library reads the
  keys \<^verbatim>\<open>name\<close>, \<^verbatim>\<open>test\<close>, \<^verbatim>\<open>from\<close>, \<^verbatim>\<open>to\<close> and \<^verbatim>\<open>convert\<close> only; of these the
  built-in prototypes supply \<^verbatim>\<open>test\<close> to regular expressions alone, which have no
  \<^verbatim>\<open>name\<close>, so that no value without added properties other than a plain object
  passes a shape check.
\<close>

fun getProp :: "jsval \<Rightarrow> string \<Rightarrow> jsval" where
  "getProp (JObject ps) k = (case map_of ps k of Some v \<Rightarrow> v | None \<Rightarrow> JUndefined)"
| "getProp (JFunction f n ps) k =
     (case map_of ps k of
        Some v \<Rightarrow> v
      | None \<Rightarrow> if k = ''name'' then JString n else JUndefined)"
| "getProp x k = JUndefined"

text \<open>\<^verbatim>\<open>args[i]\<close>: reading past the end of the argument list gives \<^verbatim>\<open>undefined\<close>.\<close>

definition arg_at :: "jsval list \<Rightarrow> nat \<Rightarrow> jsval" where
  "arg_at args i = (if i < length args then args ! i else JUndefined)"


section \<open>Strings\<close>

text \<open>
  A string is a list of characters; a character stands for a code unit below 256.
\<close>

text \<open>\<^verbatim>\<open>str.split(sep)\<close> for a separator of one character. The result is never empty:
  the empty string splits into one empty piece.\<close>

fun split_str :: "char \<Rightarrow> string \<Rightarrow> string list" where
  "split_str sep [] = [[]]"
| "split_str sep (c # cs) =
     (if c = sep then [] # split_str sep cs
      else (case split_str sep cs of
              [] \<Rightarrow> [[c]]
            | w # ws \<Rightarrow> (c # w) # ws))"

text \<open>White space as \<^verbatim>\<open>trim\<close> sees it: tab, line feed, vertical tab, form feed,
  carriage return, space and the no-break space.\<close>

definition isWhiteSpace :: "char \<Rightarrow> bool" where
  "isWhiteSpace c = (c \<in> set [CHR 0x09, CHR 0x0A, CHR 0x0B, CHR 0x0C, CHR 0x0D, CHR 0x20, CHR 0xA0])"

definition trim :: "string \<Rightarrow> string" where
  "trim str = rev (dropWhile isWhiteSpace (rev (dropWhile isWhiteSpace str)))"

text \<open>\<^verbatim>\<open>str.indexOf(pat)\<close> and \<^verbatim>\<open>str.lastIndexOf(c)\<close>: the position of the first
  occurrence of a substring, of the last occurrence of a character, or \<open>-1\<close>.\<close>

fun indexOf :: "string \<Rightarrow> string \<Rightarrow> int" where
  "indexOf [] pat = (if pat = [] then 0 else -1)"
| "indexOf (c # cs) pat =
     (if take (length pat) (c # cs) = pat then 0
      else (let r = indexOf cs pat in if r = -1 then -1 else r + 1))"

fun lastIndexOf :: "string \<Rightarrow> char \<Rightarrow> int" where
  "lastIndexOf [] ch = -1"
| "lastIndexOf (c # cs) ch =
     (let r = lastIndexOf cs ch
      in if r \<noteq> -1 then r + 1 else if c = ch then 0 else -1)"

text \<open>\<^verbatim>\<open>str.replace(/^.../, '')\<close>: the pattern is three wildcards anchored at the start,
  so it removes the first three characters, whatever they are, unless one of them is a
  line terminator or the string is shorter than three characters.\<close>

definition isLineTerminator :: "char \<Rightarrow> bool" where
  "isLineTerminator c = (c = CHR 0x0A \<or> c = CHR 0x0D)"

fun replace_first3 :: "string \<Rightarrow> string" where
  "replace_first3 (a # b # c # rest) =
     (if isLineTerminator a \<or> isLineTerminator b \<or> isLineTerminator c
      then a # b # c # rest else rest)"
| "replace_first3 str = str"

text \<open>\<^verbatim>\<open>str.replace(/ /g, '')\<close> removes every space.\<close>

definition remove_spaces :: "string \<Rightarrow> string" where
  "remove_spaces str = filter (\<lambda>c. c \<noteq> CHR '' '') str"

text \<open>\<^verbatim>\<open>str.toLowerCase()\<close> on code units below 256: the letters A to Z and the
  accented capitals 0xC0 to 0xDE, the multiplication sign 0xD7 apart, have a lower-case
  form, 32 code units further on; every other character is left as it is.\<close>

definition upper_case :: string where
  "upper_case = ''ABCDEFGHIJKLMNOPQRSTUVWXYZ'' @
     [CHR 0xC0, CHR 0xC1, CHR 0xC2, CHR 0xC3, CHR 0xC4, CHR 0xC5, CHR 0xC6, CHR 0xC7,
       CHR 0xC8, CHR 0xC9, CHR 0xCA, CHR 0xCB, CHR 0xCC, CHR 0xCD, CHR 0xCE, CHR 0xCF,
       CHR 0xD0, CHR 0xD1, CHR 0xD2, CHR 0xD3, CHR 0xD4, CHR 0xD5, CHR 0xD6, CHR 0xD8,
       CHR 0xD9, CHR 0xDA, CHR 0xDB, CHR 0xDC, CHR 0xDD, CHR 0xDE]"

definition lower_case :: string where
  "lower_case = ''abcdefghijklmnopqrstuvwxyz'' @
     [CHR 0xE0, CHR 0xE1, CHR 0xE2, CHR 0xE3, CHR 0xE4, CHR 0xE5, CHR 0xE6, CHR 0xE7,
       CHR 0xE8, CHR 0xE9, CHR 0xEA, CHR 0xEB, CHR 0xEC, CHR 0xED, CHR 0xEE, CHR 0xEF,
       CHR 0xF0, CHR 0xF1, CHR 0xF2, CHR 0xF3, CHR 0xF4, CHR 0xF5, CHR 0xF6, CHR 0xF8,
       CHR 0xF9, CHR 0xFA, CHR 0xFB, CHR 0xFC, CHR 0xFD, CHR 0xFE]"

definition toLowerCase_char :: "char \<Rightarrow> char" where
  "toLowerCase_char c =
     (case map_of (zip upper_case lower_case) c of Some l \<Rightarrow> l | None \<Rightarrow> c)"

definition toLowerCase :: "string \<Rightarrow> string" where
  "toLowerCase str = map toLowerCase_char str"

text \<open>\<^verbatim>\<open>arr.join(sep)\<close> on an array of strings.\<close>

fun join :: "string \<Rightarrow> string list \<Rightarrow> string" where
  "join sep [] = []"
| "join sep [x] = x"
| "join sep (x # y # ys) = x @ sep @ join sep (y # ys)"


section \<open>Errors\<close>

text \<open>
  The exceptions of the library, by their JavaScript class and message:
  \<open>TypeError\<close> is raised for an unknown type name and for a malformed registry entry,
  \<open>SyntaxError\<close> for a misplaced variable-argument marker, and \<open>Error\<close> when no
  signature matches a call. \<open>NativeTypeError\<close> is the \<^verbatim>\<open>TypeError\<close> that the
  language itself raises when a property of \<^verbatim>\<open>undefined\<close> or \<^verbatim>\<open>null\<close> is read or a
  non-function is called; its message depends on the engine and is left out.
\<close>

datatype error =
    TypeError string
  | SyntaxError string
  | Error string
  | NativeTypeError


section \<open>The instance: type registry, ignore list, conversions\<close>

record type_entry =
  name :: string
  test :: "jsval \<Rightarrow> bool"

text \<open>
  The state of one instance: the array \<^verbatim>\<open>typed.types\<close>, the array \<^verbatim>\<open>typed.ignore\<close> and
  the property \<^verbatim>\<open>typed.conversions\<close>, which is \<open>None\<close> while the property is
  \<^verbatim>\<open>undefined\<close>. A conversion is kept as the object that was pushed.
\<close>

record typed_state =
  types :: "type_entry list"
  ignore :: "string list"
  conversions :: "jsval list option"

definition ok :: "jsval \<Rightarrow> bool" where
  "ok x = True"

text \<open>The array \<^verbatim>\<open>_types\<close> of \<^verbatim>\<open>create\<close>.\<close>

definition default_types :: "type_entry list" where
  "default_types =
    [ \<lparr>name = ''number'',    test = (\<lambda>x. typeof x = ''number'')\<rparr>,
      \<lparr>name = ''string'',    test = (\<lambda>x. typeof x = ''string'')\<rparr>,
      \<lparr>name = ''boolean'',   test = (\<lambda>x. typeof x = ''boolean'')\<rparr>,
      \<lparr>name = ''Function'',  test = (\<lambda>x. typeof x = ''function'')\<rparr>,
      \<lparr>name = ''Array'',     test = isArray\<rparr>,
      \<lparr>name = ''Date'',      test = instanceofDate\<rparr>,
      \<lparr>name = ''RegExp'',    test = instanceofRegExp\<rparr>,
      \<lparr>name = ''Object'',    test = (\<lambda>x. typeof x = ''object'')\<rparr>,
      \<lparr>name = ''null'',      test = (\<lambda>x. x = JNull)\<rparr>,
      \<lparr>name = ''undefined'', test = (\<lambda>x. x = JUndefined)\<rparr>,
      \<lparr>name = ''any'',       test = ok\<rparr> ]"

text \<open>The instance as \<^verbatim>\<open>create\<close> leaves it: \<^verbatim>\<open>typed.types = _types\<close>,
  \<^verbatim>\<open>typed.ignore = _ignore\<close>, and no assignment to \<^verbatim>\<open>typed.conversions\<close>.\<close>

definition new_instance :: typed_state where
  "new_instance = \<lparr>types = default_types, ignore = [], conversions = None\<rparr>"


section \<open>Compiling a signature\<close>

definition findTest :: "typed_state \<Rightarrow> string \<Rightarrow> error + (jsval \<Rightarrow> bool)" where
  "findTest s type =
     (case find (\<lambda>entry. name entry = type) (types s) of
        Some entry \<Rightarrow> Inr (test entry)
      | None \<Rightarrow>
          (let hint = find (\<lambda>entry. toLowerCase (name entry) = toLowerCase type) (types s)
           in Inl (TypeError (''Unknown type '' @ [CHR 0x22] @ type @ [CHR 0x22] @
                (case hint of
                   Some h \<Rightarrow> ''. Did you mean '' @ [CHR 0x22] @ name h @ [CHR 0x22] @ ''?''
                 | None \<Rightarrow> '''')))))"

definition notEmpty :: "string \<Rightarrow> bool" where
  "notEmpty str = (str \<noteq> [])"

definition notIgnore :: "typed_state \<Rightarrow> string \<Rightarrow> bool" where
  "notIgnore s type = (type \<notin> set (ignore s))"

text \<open>\<^verbatim>\<open>arr.map(f)\<close> for a callback that may throw: the first exception ends the map.\<close>

fun map_throwing :: "('a \<Rightarrow> error + 'b) \<Rightarrow> 'a list \<Rightarrow> error + 'b list" where
  "map_throwing f [] = Inr []"
| "map_throwing f (x # xs) =
     (case f x of
        Inl e \<Rightarrow> Inl e
      | Inr y \<Rightarrow> (case map_throwing f xs of Inl e \<Rightarrow> Inl e | Inr ys \<Rightarrow> Inr (y # ys)))"

text \<open>The loop of the closure \<^verbatim>\<open>or\<close> for three or more types.\<close>

fun or_tests :: "(jsval \<Rightarrow> bool) list \<Rightarrow> jsval \<Rightarrow> bool" where
  "or_tests [] x = False"
| "or_tests (t # ts) x = (if t x then True else or_tests ts x)"

definition parseParam :: "typed_state \<Rightarrow> string \<Rightarrow> error + (jsval \<Rightarrow> bool)" where
  "parseParam s param =
     (let tys = filter (notIgnore s) (filter notEmpty (map trim (split_str CHR ''|'' param)))
      in if length tys = 0 then Inr ok
         else if length tys = 1 then findTest s (tys ! 0)
         else if length tys = 2 then
           (case findTest s (tys ! 0) of
              Inl e \<Rightarrow> Inl e
            | Inr test0 \<Rightarrow>
                (case findTest s (tys ! 1) of
                   Inl e \<Rightarrow> Inl e
                 | Inr test1 \<Rightarrow> Inr (\<lambda>x. test0 x \<or> test1 x)))
         else
           (case map_throwing (findTest s) tys of
              Inl e \<Rightarrow> Inl e
            | Inr tests \<Rightarrow> Inr (or_tests tests)))"

text \<open>\<^verbatim>\<open>initial(arr)\<close> is \<^verbatim>\<open>arr.splice(0, arr.length - 1)\<close>: it returns all but the last
  item and removes them from \<open>arr\<close>; the second component is what is left in \<open>arr\<close>.\<close>

definition initial :: "'a list \<Rightarrow> 'a list \<times> 'a list" where
  "initial arr = (take (length arr - 1) arr, drop (length arr - 1) arr)"

text \<open>\<^verbatim>\<open>last(arr)\<close> is \<^verbatim>\<open>arr[arr.length - 1]\<close>, which is \<^verbatim>\<open>undefined\<close> (here \<open>None\<close>)
  on the empty array.\<close>

definition last_item :: "'a list \<Rightarrow> 'a option" where
  "last_item arr = (if arr = [] then None else Some (arr ! (length arr - 1)))"

text \<open>The loop over the fixed parameters: \<^verbatim>\<open>tests[i](args[i])\<close> for \<open>i\<close> from the given
  index on.\<close>

fun all_tests :: "(jsval \<Rightarrow> bool) list \<Rightarrow> jsval list \<Rightarrow> nat \<Rightarrow> bool" where
  "all_tests [] args i = True"
| "all_tests (t # ts) args i = (if \<not> t (arg_at args i) then False else all_tests ts args (Suc i))"

text \<open>The closure \<^verbatim>\<open>testVarArgs\<close>: every argument from \<open>varIndex\<close> on passes \<open>lastTest\<close>.\<close>

definition testVarArgs :: "(jsval \<Rightarrow> bool) \<Rightarrow> nat \<Rightarrow> jsval list \<Rightarrow> bool" where
  "testVarArgs lastTest varIndex args = list_all lastTest (drop varIndex args)"

definition parseParams :: "typed_state \<Rightarrow> string \<Rightarrow> error + (jsval list \<Rightarrow> bool)" where
  "parseParams s signature =
     (let params = map trim (split_str CHR '','' signature);
          varArgsIndex = indexOf signature ''...''
      in if varArgsIndex \<noteq> -1 then
           (if lastIndexOf signature CHR '','' > varArgsIndex then
              Inl (SyntaxError (''Variable argument operator '' @ [CHR 0x22] @ ''...'' @
                     [CHR 0x22] @ '' only allowed for the last parameter''))
            else
              (case map_throwing (parseParam s) (fst (initial params)) of
                 Inl e \<Rightarrow> Inl e
               | Inr tests \<Rightarrow>
                   (let varIndex = length tests
                    in case last_item (snd (initial params)) of
                         None \<Rightarrow> Inl NativeTypeError
                       | Some p \<Rightarrow>
                           (case parseParam s (replace_first3 p) of
                              Inl e \<Rightarrow> Inl e
                            | Inr lastTest \<Rightarrow>
                                Inr (\<lambda>args. all_tests tests args 0 \<and>
                                       (testVarArgs lastTest varIndex args \<and>
                                        length args \<ge> varIndex + 1))))))
         else if length params = 0 then Inr (\<lambda>args. length args = 0)
         else if length params = 1 then
           (case parseParam s (params ! 0) of
              Inl e \<Rightarrow> Inl e
            | Inr test0 \<Rightarrow> Inr (\<lambda>args. test0 (arg_at args 0) \<and> length args = 1))
         else if length params = 2 then
           (case parseParam s (params ! 0) of
              Inl e \<Rightarrow> Inl e
            | Inr test0 \<Rightarrow>
                (case parseParam s (params ! 1) of
                   Inl e \<Rightarrow> Inl e
                 | Inr test1 \<Rightarrow>
                     Inr (\<lambda>args. test0 (arg_at args 0) \<and> test1 (arg_at args 1) \<and> length args = 2)))
         else
           (case map_throwing (parseParam s) params of
              Inl e \<Rightarrow> Inl e
            | Inr tests \<Rightarrow> Inr (\<lambda>args. all_tests tests args 0 \<and> length args = length tests)))"



section \<open>The diagnostic of a call that matches no signature\<close>

text \<open>The callback of \<^verbatim>\<open>createError\<close>: the name of the first entry of the registry, as it
  is when the call is made, whose test accepts the argument.\<close>

definition actual_type :: "typed_state \<Rightarrow> jsval \<Rightarrow> string" where
  "actual_type s arg =
     (case find (\<lambda>entry. test entry arg) (types s) of
        Some entry \<Rightarrow> name entry
      | None \<Rightarrow> ''unknown'')"

definition createError :: "typed_state \<Rightarrow> string \<Rightarrow> jsval list \<Rightarrow> error" where
  "createError s nm args =
     (let typesList = map (actual_type s) args
      in Error (''Signature '' @ [CHR 0x22] @ join '', '' typesList @ [CHR 0x22] @
                '' doesn't match any of the defined signatures of function '' @
                (if nm \<noteq> [] then nm else ''unnamed'') @ ''.''))"


section \<open>Building and calling a typed function\<close>

text \<open>\<^verbatim>\<open>slice(args, 0, offset).concat([slice(args, offset)])\<close>: the trailing arguments are
  collected into one array.\<close>

definition createVarArgPreProcess :: "string \<Rightarrow> jsval list \<Rightarrow> jsval list" where
  "createVarArgPreProcess signature =
     (let offset = length (split_str CHR '','' signature) - 1
      in (\<lambda>args. take offset args @ [JArray (drop offset args)]))"

text \<open>
  One entry of \<^verbatim>\<open>defs\<close>. The field \<open>argsTest\<close> is the property \<^verbatim>\<open>test\<close> of the entry,
  and \<open>preprocess\<close> is \<open>None\<close> where the source stores \<^verbatim>\<open>null\<close>. An implementation is
  a function of the argument list; what it returns or throws is a value of \<open>'r\<close>.
\<close>

record 'r sig_def =
  signature :: string
  varArg :: bool
  preprocess :: "(jsval list \<Rightarrow> jsval list) option"
  argsTest :: "jsval list \<Rightarrow> bool"
  fn :: "jsval list \<Rightarrow> 'r"

text \<open>
  The typed function: its name, the array \<^verbatim>\<open>defs\<close> of its closure and the object
  \<^verbatim>\<open>fn.signatures\<close>.
\<close>

record 'r typed_function =
  fname :: string
  defs :: "'r sig_def list"
  signatures :: "string \<rightharpoonup> (jsval list \<Rightarrow> 'r)"

text \<open>
  The loop over the own keys of the signatures object, kept as the list of its
  (signature, implementation) pairs in iteration order. A signature that does not
  compile ends the loop with its exception.
\<close>

fun parse_signatures ::
  "typed_state \<Rightarrow> (string \<times> (jsval list \<Rightarrow> 'r)) list \<Rightarrow> error + 'r sig_def list" where
  "parse_signatures s [] = Inr []"
| "parse_signatures s ((sg, impl) # rest) =
     (let va = (indexOf sg ''...'' \<noteq> -1)
      in case parseParams s sg of
           Inl e \<Rightarrow> Inl e
         | Inr t \<Rightarrow>
             (case parse_signatures s rest of
                Inl e \<Rightarrow> Inl e
              | Inr ds \<Rightarrow>
                  Inr (\<lparr>signature = remove_spaces sg,
                        varArg = va,
                        preprocess = (if va then Some (createVarArgPreProcess sg) else None),
                        argsTest = t,
                        fn = impl\<rparr> # ds)))"

definition createTypedFunction ::
  "typed_state \<Rightarrow> string \<Rightarrow> (string \<times> (jsval list \<Rightarrow> 'r)) list \<Rightarrow> error + 'r typed_function" where
  "createTypedFunction s nm sigs =
     (case parse_signatures s sigs of
        Inl e \<Rightarrow> Inl e
      | Inr ds \<Rightarrow>
          Inr \<lparr>fname = nm,
               defs = ds,
               signatures = fold (\<lambda>d m. m(signature d \<mapsto> fn d)) ds Map.empty\<rparr>)"

text \<open>Forwarding the call to the implementation of the selected entry.\<close>

definition invoke :: "'r sig_def \<Rightarrow> jsval list \<Rightarrow> error + 'r" where
  "invoke d args =
     (if varArg d then
        (case preprocess d of
           Some p \<Rightarrow> Inr (fn d (p args))
         | None \<Rightarrow> Inl NativeTypeError)
      else Inr (fn d args))"

text \<open>
  The body of the typed function: the entries are tried in order, the first whose test
  accepts the arguments is invoked, and the diagnostic is thrown when the loop ends.
  The state is the instance as it is when the call is made.
\<close>

fun call_defs :: "typed_state \<Rightarrow> string \<Rightarrow> 'r sig_def list \<Rightarrow> jsval list \<Rightarrow> error + 'r" where
  "call_defs s nm [] args = Inl (createError s nm args)"
| "call_defs s nm (d # ds) args =
     (if argsTest d args then invoke d args else call_defs s nm ds args)"

definition call :: "typed_state \<Rightarrow> 'r typed_function \<Rightarrow> jsval list \<Rightarrow> error + 'r" where
  "call s f args = call_defs s (fname f) (defs f) args"


section \<open>The mutators of the registries\<close>

text \<open>
  What each closure answers when it is called as a type test, by the identity of the
  closure.
\<close>

type_synonym closures = "nat \<Rightarrow> jsval \<Rightarrow> bool"

text \<open>The registry entry that a pushed object amounts to.\<close>

definition entry_of :: "closures \<Rightarrow> jsval \<Rightarrow> type_entry" where
  "entry_of cl type =
     \<lparr>name = (case getProp type ''name'' of JString n \<Rightarrow> n | _ \<Rightarrow> []),
      test = (case getProp type ''test'' of JFunction f n ps \<Rightarrow> cl f | _ \<Rightarrow> (\<lambda>x. False))\<rparr>"

definition addType :: "closures \<Rightarrow> typed_state \<Rightarrow> jsval \<Rightarrow> error + typed_state" where
  "addType cl s type =
     (if \<not> truthy type \<or> typeof (getProp type ''name'') \<noteq> ''string''
         \<or> typeof (getProp type ''test'') \<noteq> ''function''
      then Inl (TypeError ''Object with properties {name: string, test: function} expected'')
      else Inr (s\<lparr>types := types s @ [entry_of cl type]\<rparr>))"

text \<open>\<^verbatim>\<open>typed.conversions.push(conversion)\<close> reads the property \<^verbatim>\<open>conversions\<close> of the
  instance; pushing onto \<^verbatim>\<open>undefined\<close> is a \<^verbatim>\<open>TypeError\<close> of the language.\<close>

definition addConversion :: "typed_state \<Rightarrow> jsval \<Rightarrow> error + typed_state" where
  "addConversion s conversion =
     (if \<not> truthy conversion
         \<or> typeof (getProp conversion ''from'') \<noteq> ''string''
         \<or> typeof (getProp conversion ''to'') \<noteq> ''string''
         \<or> typeof (getProp conversion ''convert'') \<noteq> ''function''
      then Inl (TypeError
             ''Object with properties {from: string, to: string, convert: function} expected'')
      else (case conversions s of
              None \<Rightarrow> Inl NativeTypeError
            | Some cs \<Rightarrow> Inr (s\<lparr>conversions := Some (cs @ [conversion])\<rparr>)))"


section \<open>Instances in a store\<close>

text \<open>
  Every call of \<^verbatim>\<open>create\<close> allocates a new instance with arrays of its own. The store
  holds the instances that exist; an instance is addressed by its position.
\<close>

type_synonym store = "typed_state list"

definition create :: "store \<Rightarrow> nat \<times> store" where
  "create st = (length st, st @ [new_instance])"

text \<open>\<^verbatim>\<open>inst.addType(type)\<close> for the instance at address \<open>i\<close>.\<close>

definition addType_at :: "closures \<Rightarrow> store \<Rightarrow> nat \<Rightarrow> jsval \<Rightarrow> error + store" where
  "addType_at cl st i type =
     (if i < length st then
        (case addType cl (st ! i) type of
           Inl e \<Rightarrow> Inl e
         | Inr s' \<Rightarrow> Inr (st[i := s']))
      else Inl NativeTypeError)"


section \<open>The wording of the specification\<close>

text \<open>
  The specification's description of one item of the reported list of actual types: the
  name of the first entry of the registry whose test accepts the value, or \<open>unknown\<close>
  when no entry accepts it.
\<close>

definition first_accepting :: "type_entry list \<Rightarrow> jsval \<Rightarrow> string \<Rightarrow> bool" where
  "first_accepting ts v n =
     ((\<exists>k<length ts. test (ts ! k) v \<and> (\<forall>j<k. \<not> test (ts ! j) v) \<and> n = name (ts ! k)) \<or>
      ((\<forall>e \<in> set ts. \<not> test e v) \<and> n = ''unknown''))"


section \<open>The states an instance can reach\<close>

text \<open>
  An instance starts as \<^verbatim>\<open>create\<close> leaves it. Its registry of types changes through
  \<open>addType\<close> only; its conversions change through \<open>addConversion\<close> or an assignment to
  the property \<^verbatim>\<open>conversions\<close>, and its ignore list through an assignment to the
  property \<^verbatim>\<open>ignore\<close>.
\<close>

inductive instance_state :: "typed_state \<Rightarrow> bool" where
  created: "instance_state new_instance"
| type_added: "instance_state s \<Longrightarrow> addType cl s type = Inr s' \<Longrightarrow> instance_state s'"
| conversion_added: "instance_state s \<Longrightarrow> addConversion s conversion = Inr s' \<Longrightarrow> instance_state s'"
| ignore_assigned: "instance_state s \<Longrightarrow> instance_state (s\<lparr>ignore := ig\<rparr>)"
| conversions_assigned: "instance_state s \<Longrightarrow> instance_state (s\<lparr>conversions := cv\<rparr>)"


section \<open>Evaluation of concrete signatures\<close>

lemma postfix_marker_eval:
  "(case parseParams new_instance ''string, number...'' of
      Inl e \<Rightarrow> e = TypeError (''Unknown type '' @ [CHR 0x22] @ ''ber...'' @ [CHR 0x22])
    | Inr t \<Rightarrow> False)"
  by code_simp

lemma prefix_marker_eval:
  "(case parseParams new_instance ''string, ...number'' of
      Inl e \<Rightarrow> False
    | Inr t \<Rightarrow>
        t [JString ''a'', JNumber 1] \<and> t [JString ''a'', JNumber 1, JNumber 2, JNumber 3] \<and>
        \<not> t [JString ''a''] \<and> \<not> t [JNumber 1, JNumber 2])"
  by code_simp

lemma parseParam_empty: "parseParam s [] = Inr ok"
  by (simp add: parseParam_def trim_def notEmpty_def)

lemma split_str_not_Nil: "split_str sep str \<noteq> []"
  by (induction str) (auto split: list.splits)

lemma findTest_Object:
  "findTest new_instance ''Object'' = Inr (\<lambda>x. typeof x = ''object'')"
  by (simp add: findTest_def new_instance_def default_types_def)


lemma findTest_number: "findTest new_instance ''number'' = Inr (\<lambda>x. typeof x = ''number'')"
  by (simp add: findTest_def new_instance_def default_types_def)

lemma ignore_new_instance: "ignore new_instance = []"
  by (simp add: new_instance_def)

lemma types_new_instance: "types new_instance = default_types"
  by (simp add: new_instance_def)

lemma parseParam_Object:
  "parseParam new_instance ''Object'' = Inr (\<lambda>x. typeof x = ''object'')"
  by (simp add: parseParam_def findTest_Object trim_def isWhiteSpace_def notEmpty_def notIgnore_def ignore_new_instance)

lemma parseParams_Object:
  "parseParams new_instance ''Object'' = Inr (\<lambda>args. typeof (arg_at args 0) = ''object'' \<and> length args = 1)"
  by (simp add: parseParams_def parseParam_Object trim_def isWhiteSpace_def)



lemma parseParam_number: "parseParam new_instance ''number'' = Inr (\<lambda>x. typeof x = ''number'')"
  by (simp add: parseParam_def findTest_number trim_def isWhiteSpace_def notEmpty_def notIgnore_def ignore_new_instance)


lemma parseParams_number:
  "parseParams new_instance ''number'' = Inr (\<lambda>args. typeof (arg_at args 0) = ''number'' \<and> length args = 1)"
  by (simp add: parseParams_def parseParam_number trim_def isWhiteSpace_def)


lemma call_defs_none:
  "\<forall>d \<in> set ds. \<not> argsTest d args \<Longrightarrow> call_defs s nm ds args = Inl (createError s nm args)"
  by (induction ds) simp_all


section \<open>Variable arguments\<close>

text \<open>
  C1, as the specification states it, fails: the signature text \<open>string, number...\<close>, with
  the marker after the type name, does not compile. The pattern that strips the marker
  removes the first three characters of the last parameter, so the name that is looked up
  is \<open>ber...\<close>, which no registry entry has.
\<close>

theorem c1_postfix_marker_counterexample:
  "parseParams new_instance ''string, number...'' =
     Inl (TypeError (''Unknown type '' @ [CHR 0x22] @ ''ber...'' @ [CHR 0x22]))"
  using postfix_marker_eval by (simp split: sum.splits)

text \<open>
  C1, amended: the marker is written before the type name of the last parameter. The
  signature text \<open>string, ...number\<close> compiles on a new instance, and its test accepts
  the argument lists \<open>["a", 1]\<close> and \<open>["a", 1, 2, 3]\<close>, rejects \<open>["a"]\<close>, which has no
  trailing argument, and rejects \<open>[1, 2]\<close>, whose first argument is not a string.
  The text \<open>string, number...\<close> fails to compile, with a \<open>TypeError\<close> for an unknown type.
\<close>

theorem c1_prefix_marker:
  "(\<exists>m. parseParams new_instance ''string, number...'' = Inl (TypeError m)) \<and>
   (\<exists>t. parseParams new_instance ''string, ...number'' = Inr t \<and>
        t [JString ''a'', JNumber 1] \<and>
        t [JString ''a'', JNumber 1, JNumber 2, JNumber 3] \<and>
        \<not> t [JString ''a''] \<and>
        \<not> t [JNumber 1, JNumber 2])"
proof
  show "\<exists>m. parseParams new_instance ''string, number...'' = Inl (TypeError m)"
    using postfix_marker_eval by (simp split: sum.splits)
next
  show "\<exists>t. parseParams new_instance ''string, ...number'' = Inr t \<and>
        t [JString ''a'', JNumber 1] \<and>
        t [JString ''a'', JNumber 1, JNumber 2, JNumber 3] \<and>
        \<not> t [JString ''a''] \<and>
        \<not> t [JNumber 1, JNumber 2]"
    using prefix_marker_eval
    by (cases "parseParams new_instance ''string, ...number''") simp_all
qed


section \<open>Registering a conversion\<close>

text \<open>
  C2 on the code: while the instance has no property \<^verbatim>\<open>conversions\<close>, which is how
  \<^verbatim>\<open>create\<close> leaves it, \<open>addConversion\<close> with an entry of the required shape
  \<open>{from: string, to: string, convert: function}\<close> appends nothing: the push onto
  \<^verbatim>\<open>undefined\<close> raises the \<^verbatim>\<open>TypeError\<close> of the language.
\<close>

theorem c2_addConversion_without_registry:
  assumes "conversions s = None" "truthy c"
    "typeof (getProp c ''from'') = ''string''"
    "typeof (getProp c ''to'') = ''string''"
    "typeof (getProp c ''convert'') = ''function''"
  shows "addConversion s c = Inl NativeTypeError"
  using assms by (simp add: addConversion_def)

text \<open>
  C2 at a new instance and the entry \<open>{from: "boolean", to: "number", convert: f}\<close>.
\<close>

theorem c2_addConversion_without_registry_witness:
  "conversions new_instance = None \<and>
   truthy (JObject [(''from'', JString ''boolean''), (''to'', JString ''number''), (''convert'', JFunction 0 '''' [])]) \<and>
   addConversion new_instance
     (JObject [(''from'', JString ''boolean''), (''to'', JString ''number''),
               (''convert'', JFunction 0 '''' [])]) = Inl NativeTypeError"
  using c2_addConversion_without_registry [of new_instance "JObject [(''from'', JString ''boolean''), (''to'', JString ''number''), (''convert'', JFunction 0 '''' [])]"]
  by (simp add: new_instance_def)


section \<open>The empty signature\<close>

text \<open>
  C3 on the code: the empty signature text compiles, in every instance, to a test that
  rejects the empty argument list and accepts every argument list of length one. The
  empty string splits into one empty parameter, so the branch for no parameters is
  never taken.
\<close>

theorem c3_empty_signature:
  "\<exists>t. parseParams s '''' = Inr t \<and> \<not> t [] \<and> (\<forall>x. t [x])"
  by (simp add: parseParams_def parseParam_empty trim_def ok_def arg_at_def)


section \<open>The built-in type Object\<close>

text \<open>
  C10: on a new instance the test registered under \<open>Object\<close> accepts \<^verbatim>\<open>null\<close>, every
  array, every date and every regular expression, and the typed function built from the
  single signature \<open>Object\<close> forwards the call with the argument list \<open>[null]\<close> to its
  implementation, whatever the instance is when the call is made.
\<close>

theorem c10_Object_accepts_null:
  "(\<exists>t. findTest new_instance ''Object'' = Inr t \<and>
        t JNull \<and> t (JArray xs) \<and> t (JDate d) \<and> t (JRegExp r)) \<and>
   (\<exists>f. createTypedFunction new_instance nm [(''Object'', impl)] = Inr f \<and>
        call s f [JNull] = Inr (impl [JNull]))"
  by (simp add: findTest_Object createTypedFunction_def parseParams_Object call_def invoke_def arg_at_def)


section \<open>Dispatch in registration order\<close>


lemma findTest_string: "findTest new_instance ''string'' = Inr (\<lambda>x. typeof x = ''string'')"
  by (simp add: findTest_def new_instance_def default_types_def)

lemma parseParam_string: "parseParam new_instance ''string'' = Inr (\<lambda>x. typeof x = ''string'')"
  by (simp add: parseParam_def findTest_string trim_def isWhiteSpace_def notEmpty_def notIgnore_def ignore_new_instance)

lemma parseParams_string:
  "parseParams new_instance ''string'' = Inr (\<lambda>args. typeof (arg_at args 0) = ''string'' \<and> length args = 1)"
  by (simp add: parseParams_def parseParam_string trim_def isWhiteSpace_def)

lemma actual_type_boolean: "actual_type new_instance (JBoolean b) = ''boolean''"
  by (simp add: actual_type_def new_instance_def default_types_def)



section \<open>The diagnostic of a call without a match\<close>

lemma actual_type_first_accepting: "first_accepting (types s) a (actual_type s a)"
proof (cases "find (\<lambda>entry. test entry a) (types s)")
  case None
  then have "\<forall>e \<in> set (types s). \<not> test e a"
    by (simp add: find_None_iff)
  with None show ?thesis
    by (simp add: first_accepting_def actual_type_def)
next
  case (Some e)
  then obtain k where "k < length (types s)" "test (types s ! k) a" "e = types s ! k"
    "\<forall>j<k. \<not> test (types s ! j) a"
    by (auto simp: find_Some_iff)
  with Some show ?thesis
    by (auto simp: first_accepting_def actual_type_def)
qed

text \<open>
  C5: when no entry of \<open>defs\<close> accepts the arguments, the call fails with an \<open>Error\<close>
  whose message holds, joined by a comma and a space in the order of the arguments, what
  \<open>actual_type\<close> gives for each argument, followed by the name of the typed function, or
  by \<open>unnamed\<close> when the name is empty. For every argument that item is the name of the
  first entry of the registry whose test accepts the argument, or \<open>unknown\<close> when no
  entry does; the registry is the one of the instance when the call is made.
\<close>

theorem c5_no_match_diagnostic:
  assumes "\<forall>d \<in> set (defs f). \<not> argsTest d args"
  shows "call s f args =
           Inl (Error (''Signature '' @ [CHR 0x22] @ join '', '' (map (actual_type s) args) @
                       [CHR 0x22] @ '' doesn't match any of the defined signatures of function '' @
                       (if fname f = [] then ''unnamed'' else fname f) @ ''.'')) \<and>
         (\<forall>i<length args. first_accepting (types s) (args ! i) (map (actual_type s) args ! i))"
  using assms by (simp add: call_def call_defs_none createError_def actual_type_first_accepting)

text \<open>
  C5 at the signatures \<open>string\<close> and \<open>number\<close> of a new instance, an empty name and a
  boolean argument: the message names the type \<open>boolean\<close>.
\<close>

theorem c5_no_match_diagnostic_witness:
  "\<exists>f. createTypedFunction new_instance '''' [(''string'', \<lambda>a. ''s''), (''number'', \<lambda>a. ''n'')] = Inr f \<and>
       call new_instance f [JBoolean True] =
         Inl (Error (''Signature '' @ [CHR 0x22] @ ''boolean'' @ [CHR 0x22] @
                     '' doesn't match any of the defined signatures of function unnamed.''))"
proof -
  obtain f where f: "createTypedFunction new_instance '''' [(''string'', \<lambda>a. ''s''), (''number'', \<lambda>a. ''n'')] = Inr f"
    and d: "defs f = [\<lparr>signature = ''string'', varArg = False, preprocess = None,
                       argsTest = (\<lambda>args. typeof (arg_at args 0) = ''string'' \<and> length args = 1),
                       fn = (\<lambda>a. ''s'')\<rparr>,
                      \<lparr>signature = ''number'', varArg = False, preprocess = None,
                       argsTest = (\<lambda>args. typeof (arg_at args 0) = ''number'' \<and> length args = 1),
                       fn = (\<lambda>a. ''n'')\<rparr>]"
    and n: "fname f = ''''"
    by (simp add: createTypedFunction_def parseParams_string parseParams_number remove_spaces_def)
  have "\<forall>d \<in> set (defs f). \<not> argsTest d [JBoolean True]"
    by (simp add: d arg_at_def)
  from c5_no_match_diagnostic [OF this, of new_instance] f n show ?thesis
    by (simp add: actual_type_boolean)
qed


section \<open>The number of arguments of a signature without variable arguments\<close>

lemma map_throwing_length: "map_throwing f xs = Inr ys \<Longrightarrow> length ys = length xs"
  by (induction xs arbitrary: ys) (auto split: sum.splits)



lemma parseParams_fixed_length:
  assumes "parseParams s sg = Inr t" "indexOf sg ''...'' = -1" "t args"
  shows "length args = length (split_str CHR '','' sg)"
proof -
  let ?params = "map trim (split_str CHR '','' sg)"
  have n: "length ?params = length (split_str CHR '','' sg)" by simp
  consider "length ?params = 0" | "length ?params = 1" | "length ?params = 2" | "2 < length ?params"
    by linarith
  then show ?thesis
  proof cases
    case 1
    then show ?thesis by (simp add: split_str_not_Nil)
  next
    case 2
    with assms(2) have "parseParams s sg =
        (case parseParam s (?params ! 0) of
           Inl e \<Rightarrow> Inl e
         | Inr test0 \<Rightarrow> Inr (\<lambda>args. test0 (arg_at args 0) \<and> length args = 1))"
      by (simp add: parseParams_def Let_def split_str_not_Nil)
    with assms(1,3) 2 show ?thesis
      by (auto split: sum.splits)
  next
    case 3
    with assms(2) have "parseParams s sg =
        (case parseParam s (?params ! 0) of
           Inl e \<Rightarrow> Inl e
         | Inr test0 \<Rightarrow>
             (case parseParam s (?params ! 1) of
                Inl e \<Rightarrow> Inl e
              | Inr test1 \<Rightarrow>
                  Inr (\<lambda>args. test0 (arg_at args 0) \<and> test1 (arg_at args 1) \<and> length args = 2)))"
      by (simp add: parseParams_def Let_def split_str_not_Nil)
    with assms(1,3) 3 show ?thesis
      by (auto split: sum.splits)
  next
    case 4
    with assms(2) have "parseParams s sg =
        (case map_throwing (parseParam s) ?params of
           Inl e \<Rightarrow> Inl e
         | Inr tests \<Rightarrow> Inr (\<lambda>args. all_tests tests args 0 \<and> length args = length tests))"
      by (simp add: parseParams_def Let_def split_str_not_Nil)
    with assms(1,3) show ?thesis
      by (auto split: sum.splits dest: map_throwing_length)
  qed
qed

text \<open>
  C6: a signature text without the marker \<open>...\<close> declares as many parameters as the
  text has pieces between its commas, at least one. The typed function built from it
  alone rejects every argument list of another length, whatever the arguments are: the
  call fails with the diagnostic of a call without a match.
\<close>

theorem c6_exact_argument_count:
  assumes "indexOf sg ''...'' = -1"
    and "createTypedFunction s nm [(sg, impl)] = Inr f"
    and "length args \<noteq> length (split_str CHR '','' sg)"
  shows "call s' f args = Inl (createError s' nm args)"
proof -
  from assms(2) obtain t where t: "parseParams s sg = Inr t"
    and f: "fname f = nm" "map argsTest (defs f) = [t]"
    by (auto simp: createTypedFunction_def Let_def split: sum.splits)
  from t assms(1,3) have "\<not> t args"
    using parseParams_fixed_length by blast
  with f have "\<forall>d \<in> set (defs f). \<not> argsTest d args"
    by auto
  with f show ?thesis
    by (simp add: call_def call_defs_none)
qed

lemma parseParams_number_number:
  "parseParams new_instance ''number, number'' =
     Inr (\<lambda>args. typeof (arg_at args 0) = ''number'' \<and> typeof (arg_at args 1) = ''number'' \<and> length args = 2)"
  by (simp add: parseParams_def parseParam_number trim_def isWhiteSpace_def)

text \<open>
  C6 at the signature \<open>number, number\<close> and three numeric arguments, each of which
  satisfies the parameter tests.
\<close>

theorem c6_exact_argument_count_witness:
  "indexOf ''number, number'' ''...'' = -1 \<and>
   length [JNumber 1, JNumber 2, JNumber 3] \<noteq> length (split_str CHR '','' ''number, number'') \<and>
   (\<exists>f. createTypedFunction new_instance ''f'' [(''number, number'', \<lambda>a. ''N'')] = Inr f \<and>
        call new_instance f [JNumber 1, JNumber 2, JNumber 3] =
          Inl (createError new_instance ''f'' [JNumber 1, JNumber 2, JNumber 3]))"
proof -
  have i: "indexOf ''number, number'' ''...'' = -1" by simp
  have l: "length [JNumber 1, JNumber 2, JNumber 3] \<noteq> length (split_str CHR '','' ''number, number'')"
    by simp
  obtain f where f: "createTypedFunction new_instance ''f'' [(''number, number'', \<lambda>a. ''N'')] = Inr f"
    by (simp add: createTypedFunction_def parseParams_number_number)
  from c6_exact_argument_count [OF i f l, of new_instance] i l f show ?thesis
    by blast
qed


section \<open>Unknown type names\<close>





















section \<open>Mutators and typed functions that exist already\<close>

lemma addType_types:
  "addType cl s type = Inr s' \<Longrightarrow> types s' = types s @ [entry_of cl type]"
  by (auto simp: addType_def split: if_splits)

lemma addType_frame:
  "addType cl s type = Inr s' \<Longrightarrow> ignore s' = ignore s \<and> conversions s' = conversions s"
  by (auto simp: addType_def split: if_splits)

lemma addConversion_types:
  "addConversion s c = Inr s' \<Longrightarrow> types s' = types s"
  by (auto simp: addConversion_def split: if_splits option.splits)

lemma instance_state_types:
  "instance_state s \<Longrightarrow> \<exists>extra. types s = default_types @ extra"
proof (induction rule: instance_state.induct)
  case created
  show ?case by (simp add: new_instance_def)
next
  case (type_added s cl type s')
  then show ?case by (auto dest: addType_types)
next
  case (conversion_added s conversion s')
  then show ?case by (auto dest: addConversion_types)
next
  case (ignore_assigned s ig)
  then show ?case by simp
next
  case (conversions_assigned s cv)
  then show ?case by simp
qed

lemma find_append_Some:
  "find P xs = Some x \<Longrightarrow> find P (xs @ ys) = Some x"
  by (induction xs) (auto split: if_splits)

lemma find_default_types: "\<exists>e. find (\<lambda>entry. test entry a) default_types = Some e"
  by (simp add: default_types_def ok_def)

lemma actual_type_addType:
  assumes "instance_state s" and "types s' = types s @ added"
  shows "actual_type s' a = actual_type s a"
proof -
  from instance_state_types [OF assms(1)] obtain extra where
    ex: "types s = default_types @ extra" ..
  from find_default_types obtain e where
    e: "find (\<lambda>entry. test entry a) default_types = Some e" ..
  from find_append_Some [OF e] have "find (\<lambda>entry. test entry a) (types s) = Some e"
    by (simp add: ex)
  moreover from find_append_Some [OF this] have "find (\<lambda>entry. test entry a) (types s') = Some e"
    by (simp add: assms(2))
  ultimately show ?thesis
    by (simp add: actual_type_def)
qed

lemma call_same_types:
  assumes "\<And>a. actual_type s' a = actual_type s a"
  shows "call s' f args = call s f args"
proof -
  from assms have "actual_type s' = actual_type s"
    by (intro ext)
  then have "createError s' nm args = createError s nm args" for nm
    by (simp add: createError_def)
  then have "call_defs s' nm ds args = call_defs s nm ds args" for nm and ds :: "'a sig_def list"
    by (induction ds) simp_all
  then show ?thesis by (simp add: call_def)
qed

lemma call_defs_accepted:
  "\<exists>d \<in> set ds. argsTest d args \<Longrightarrow> call_defs s' nm ds args = call_defs s nm ds args"
  by (induction ds) auto

lemma call_defs_Inr:
  "(call_defs s' nm ds args = Inr r) = (call_defs s nm ds args = Inr r)"
  by (induction ds) (simp_all add: createError_def Let_def)

lemma actual_type_registered:
  assumes "\<exists>e \<in> set (types s). test e a" and "types s' = types s @ added"
  shows "actual_type s' a = actual_type s a"
proof -
  from assms(1) obtain e where "find (\<lambda>entry. test entry a) (types s) = Some e"
    by (cases "find (\<lambda>entry. test entry a) (types s)") (auto simp: find_None_iff)
  moreover from find_append_Some [OF this] have "find (\<lambda>entry. test entry a) (types s') = Some e"
    by (simp add: assms(2))
  ultimately show ?thesis
    by (simp add: actual_type_def)
qed

lemma call_registered_arguments:
  assumes "\<forall>a \<in> set args. \<exists>e \<in> set (types s). test e a" and "types s' = types s @ added"
  shows "call s' f args = call s f args"
proof -
  from assms have "map (actual_type s') args = map (actual_type s) args"
    by (intro map_cong refl actual_type_registered) auto
  then have "createError s' nm args = createError s nm args" for nm
    by (simp only: createError_def Let_def)
  then have "call_defs s' nm ds args = call_defs s nm ds args" for nm and ds :: "'a sig_def list"
    by (induction ds) simp_all
  then show ?thesis by (simp add: call_def)
qed

lemma string_after_pop:
  "parseParams (new_instance\<lparr>types := butlast (types new_instance)\<rparr>) ''string'' =
     Inr (\<lambda>args. typeof (arg_at args 0) = ''string'' \<and> length args = 1)"
  by (simp add: parseParams_def parseParam_def findTest_def new_instance_def default_types_def
      trim_def isWhiteSpace_def notEmpty_def notIgnore_def)

lemma string_with_conversions:
  "parseParams (new_instance\<lparr>conversions := Some []\<rparr>) ''string'' =
     Inr (\<lambda>args. typeof (arg_at args 0) = ''string'' \<and> length args = 1)"
  by (simp add: parseParams_def parseParam_def findTest_def new_instance_def default_types_def
      trim_def isWhiteSpace_def notEmpty_def notIgnore_def)

text \<open>
  C9, as the specification states it, fails where the registry holds no entry that
  accepts the argument, as after \<^verbatim>\<open>typed.types.pop()\<close> has removed the entry \<open>any\<close>: the
  typed function of the signature \<open>string\<close>, called with a symbol, reports the type
  \<open>unknown\<close> before \<open>addType\<close> registers a type \<open>sym\<close> whose test accepts symbols, and
  the type \<open>sym\<close> after it. The diagnostic reads the registry when the call is made.
\<close>

theorem c9_diagnostic_counterexample:
  "createTypedFunction (new_instance\<lparr>types := butlast (types new_instance)\<rparr>) ''f''
     [(''string'', \<lambda>a. ''S'')] =
     Inr \<lparr>fname = ''f'',
          defs = [\<lparr>signature = ''string'', varArg = False, preprocess = None,
                   argsTest = (\<lambda>args. typeof (arg_at args 0) = ''string'' \<and> length args = 1),
                   fn = (\<lambda>a. ''S'')\<rparr>],
          signatures = [''string'' \<mapsto> (\<lambda>a. ''S'')]\<rparr> \<and>
   addType (\<lambda>g x. typeof x = ''symbol'') (new_instance\<lparr>types := butlast (types new_instance)\<rparr>)
     (JObject [(''name'', JString ''sym''), (''test'', JFunction 0 '''' [])]) =
     Inr (new_instance\<lparr>types := butlast (types new_instance) @
            [\<lparr>name = ''sym'', test = (\<lambda>x. typeof x = ''symbol'')\<rparr>]\<rparr>) \<and>
   call (new_instance\<lparr>types := butlast (types new_instance)\<rparr>)
     \<lparr>fname = ''f'',
      defs = [\<lparr>signature = ''string'', varArg = False, preprocess = None,
               argsTest = (\<lambda>args. typeof (arg_at args 0) = ''string'' \<and> length args = 1),
               fn = (\<lambda>a. ''S'')\<rparr>],
      signatures = [''string'' \<mapsto> (\<lambda>a. ''S'')]\<rparr> [JSymbol ''x''] =
     Inl (Error (''Signature '' @ [CHR 0x22] @ ''unknown'' @ [CHR 0x22] @
                 '' doesn't match any of the defined signatures of function f.'')) \<and>
   call (new_instance\<lparr>types := butlast (types new_instance) @
            [\<lparr>name = ''sym'', test = (\<lambda>x. typeof x = ''symbol'')\<rparr>]\<rparr>)
     \<lparr>fname = ''f'',
      defs = [\<lparr>signature = ''string'', varArg = False, preprocess = None,
               argsTest = (\<lambda>args. typeof (arg_at args 0) = ''string'' \<and> length args = 1),
               fn = (\<lambda>a. ''S'')\<rparr>],
      signatures = [''string'' \<mapsto> (\<lambda>a. ''S'')]\<rparr> [JSymbol ''x''] =
     Inl (Error (''Signature '' @ [CHR 0x22] @ ''sym'' @ [CHR 0x22] @
                 '' doesn't match any of the defined signatures of function f.''))"
proof (intro conjI)
  show "createTypedFunction (new_instance\<lparr>types := butlast (types new_instance)\<rparr>) ''f''
     [(''string'', \<lambda>a. ''S'')] =
     Inr \<lparr>fname = ''f'',
          defs = [\<lparr>signature = ''string'', varArg = False, preprocess = None,
                   argsTest = (\<lambda>args. typeof (arg_at args 0) = ''string'' \<and> length args = 1),
                   fn = (\<lambda>a. ''S'')\<rparr>],
          signatures = [''string'' \<mapsto> (\<lambda>a. ''S'')]\<rparr>"
    by (simp add: createTypedFunction_def string_after_pop remove_spaces_def)
  show "addType (\<lambda>g x. typeof x = ''symbol'') (new_instance\<lparr>types := butlast (types new_instance)\<rparr>)
     (JObject [(''name'', JString ''sym''), (''test'', JFunction 0 '''' [])]) =
     Inr (new_instance\<lparr>types := butlast (types new_instance) @
            [\<lparr>name = ''sym'', test = (\<lambda>x. typeof x = ''symbol'')\<rparr>]\<rparr>)"
    by (simp add: addType_def entry_of_def)
  show "call (new_instance\<lparr>types := butlast (types new_instance)\<rparr>)
     \<lparr>fname = ''f'',
      defs = [\<lparr>signature = ''string'', varArg = False, preprocess = None,
               argsTest = (\<lambda>args. typeof (arg_at args 0) = ''string'' \<and> length args = 1),
               fn = (\<lambda>a. ''S'')\<rparr>],
      signatures = [''string'' \<mapsto> (\<lambda>a. ''S'')]\<rparr> [JSymbol ''x''] =
     Inl (Error (''Signature '' @ [CHR 0x22] @ ''unknown'' @ [CHR 0x22] @
                 '' doesn't match any of the defined signatures of function f.''))"
    by (simp add: call_def createError_def actual_type_def arg_at_def new_instance_def
        default_types_def)
  show "call (new_instance\<lparr>types := butlast (types new_instance) @
            [\<lparr>name = ''sym'', test = (\<lambda>x. typeof x = ''symbol'')\<rparr>]\<rparr>)
     \<lparr>fname = ''f'',
      defs = [\<lparr>signature = ''string'', varArg = False, preprocess = None,
               argsTest = (\<lambda>args. typeof (arg_at args 0) = ''string'' \<and> length args = 1),
               fn = (\<lambda>a. ''S'')\<rparr>],
      signatures = [''string'' \<mapsto> (\<lambda>a. ''S'')]\<rparr> [JSymbol ''x''] =
     Inl (Error (''Signature '' @ [CHR 0x22] @ ''sym'' @ [CHR 0x22] @
                 '' doesn't match any of the defined signatures of function f.''))"
    by (simp add: call_def createError_def actual_type_def arg_at_def new_instance_def
        default_types_def)
qed

text \<open>
  C9, amended: \<open>addConversion\<close> leaves every call of every typed function as it was.
  \<open>addType\<close> leaves the argument lists that a typed function accepts, and the result of
  the implementation it selects for them, as they were; it leaves the diagnostic of a
  call without a match as it was whenever every argument of the call is accepted by some
  entry that the registry had before, and so in every state that an instance reaches
  from \<^verbatim>\<open>create\<close> through \<open>addType\<close>, \<open>addConversion\<close> and assignments to the
  properties \<^verbatim>\<open>ignore\<close> and \<^verbatim>\<open>conversions\<close>, where the built-in entry \<open>any\<close> accepts
  every value and comes before every entry that \<open>addType\<close> appends.
\<close>

theorem c9_mutators_and_dispatchers:
  "(addConversion s conversion = Inr s'' \<longrightarrow> call s'' f args = call s f args) \<and>
   (addType cl s type = Inr s' \<longrightarrow>
      (\<forall>r. (call s' f args = Inr r) = (call s f args = Inr r)) \<and>
      ((\<exists>d \<in> set (defs f). argsTest d args) \<longrightarrow> call s' f args = call s f args) \<and>
      ((\<forall>a \<in> set args. \<exists>e \<in> set (types s). test e a) \<longrightarrow> call s' f args = call s f args) \<and>
      (instance_state s \<longrightarrow> call s' f args = call s f args))"
proof (intro conjI impI allI)
  assume "addConversion s conversion = Inr s''"
  then have "types s'' = types s" by (rule addConversion_types)
  then have "actual_type s'' a = actual_type s a" for a
    by (simp add: actual_type_def)
  then show "call s'' f args = call s f args"
    by (rule call_same_types)
next
  fix r
  show "(call s' f args = Inr r) = (call s f args = Inr r)"
    unfolding call_def by (rule call_defs_Inr)
next
  assume "\<exists>d \<in> set (defs f). argsTest d args"
  then show "call s' f args = call s f args"
    unfolding call_def by (rule call_defs_accepted)
next
  assume "addType cl s type = Inr s'"
  then have t: "types s' = types s @ [entry_of cl type]" by (rule addType_types)
  {
    assume "\<forall>a \<in> set args. \<exists>e \<in> set (types s). test e a"
    then show "call s' f args = call s f args"
      using t by (rule call_registered_arguments)
  }
  {
    assume "instance_state s"
    then show "call s' f args = call s f args"
      using t by (intro call_same_types actual_type_addType)
  }
qed

text \<open>
  C9, amended, at an instance whose property \<^verbatim>\<open>conversions\<close> was assigned the empty
  array, the typed function of the signature \<open>string\<close>, a new type whose test accepts
  every value, a conversion of the required shape, a call with a boolean argument, which
  no signature accepts, and a call with a string argument.
\<close>

theorem c9_mutators_and_dispatchers_witness:
  "instance_state (new_instance\<lparr>conversions := Some []\<rparr>) \<and>
   (\<exists>f s' s''.
      createTypedFunction (new_instance\<lparr>conversions := Some []\<rparr>) ''f''
        [(''string'', \<lambda>a. ''S'')] = Inr f \<and>
      addType (\<lambda>g x. True) (new_instance\<lparr>conversions := Some []\<rparr>)
        (JObject [(''name'', JString ''anything''), (''test'', JFunction 0 '''' [])]) = Inr s' \<and>
      addConversion (new_instance\<lparr>conversions := Some []\<rparr>)
        (JObject [(''from'', JString ''boolean''), (''to'', JString ''number''),
                  (''convert'', JFunction 1 '''' [])]) = Inr s'' \<and>
      call s'' f [JBoolean True] = call (new_instance\<lparr>conversions := Some []\<rparr>) f [JBoolean True] \<and>
      call s' f [JBoolean True] = call (new_instance\<lparr>conversions := Some []\<rparr>) f [JBoolean True] \<and>
      call s' f [JString ''x''] = call (new_instance\<lparr>conversions := Some []\<rparr>) f [JString ''x''] \<and>
      call s' f [JString ''x''] = Inr ''S'')"
proof -
  let ?s = "new_instance\<lparr>conversions := Some []\<rparr>"
  let ?ty = "JObject [(''name'', JString ''anything''), (''test'', JFunction 0 '''' [])]"
  let ?cv = "JObject [(''from'', JString ''boolean''), (''to'', JString ''number''),
                  (''convert'', JFunction 1 '''' [])]"
  have inst: "instance_state ?s"
    by (rule conversions_assigned [OF created])
  obtain f where f: "createTypedFunction ?s ''f'' [(''string'', \<lambda>a. ''S'')] = Inr f"
    and d: "defs f = [\<lparr>signature = ''string'', varArg = False, preprocess = None,
                       argsTest = (\<lambda>args. typeof (arg_at args 0) = ''string'' \<and> length args = 1),
                       fn = (\<lambda>a. ''S'')\<rparr>]"
    by (simp add: createTypedFunction_def string_with_conversions remove_spaces_def)
  obtain s' where s': "addType (\<lambda>g x. True) ?s ?ty = Inr s'"
    by (simp add: addType_def)
  obtain s'' where s'': "addConversion ?s ?cv = Inr s''"
    by (simp add: addConversion_def)
  have reg: "\<forall>a \<in> set [JBoolean True]. \<exists>e \<in> set (types ?s). test e a"
    by (simp add: new_instance_def default_types_def)
  have acc: "\<exists>d \<in> set (defs f). argsTest d [JString ''x'']"
    by (simp add: d arg_at_def)
  note t = c9_mutators_and_dispatchers [where s = ?s and f = f and cl = "\<lambda>g x. True"
      and type = ?ty and s' = s' and conversion = ?cv and s'' = s'']
  from t [where args = "[JBoolean True]", THEN conjunct1] s''
  have 1: "call s'' f [JBoolean True] = call ?s f [JBoolean True]"
    by (rule mp)
  note u = t [where args = "[JBoolean True]", THEN conjunct2, rule_format, OF s']
  from u [THEN conjunct2, THEN conjunct2, THEN conjunct1] reg
  have 2: "call s' f [JBoolean True] = call ?s f [JBoolean True]"
    by (rule mp)
  note v = t [where args = "[JString ''x'']", THEN conjunct2, rule_format, OF s']
  from v [THEN conjunct2, THEN conjunct1] acc
  have 3: "call s' f [JString ''x''] = call ?s f [JString ''x'']"
    by (rule mp)
  have "call ?s f [JString ''x''] = Inr ''S''"
    by (simp add: call_def d invoke_def arg_at_def)
  with 3 have 4: "call s' f [JString ''x''] = Inr ''S''"
    by simp
  show ?thesis
    by (intro conjI exI [of _ f] exI [of _ s'] exI [of _ s''] inst f s' s'' 1 2 3 4)
qed



section \<open>The instance that create allocates\<close>

text \<open>
  In the store, \<^verbatim>\<open>create\<close> allocates the new instance at an address that no existing
  instance has and leaves the existing instances as they are, and \<open>addType\<close> on one
  instance appends to the registry of that instance and leaves every other instance as
  it is.
\<close>

lemma store_frame:
  "(create st = (i, st') \<longrightarrow>
      i = length st \<and> length st' = Suc (length st) \<and> st' ! i = new_instance \<and>
      (\<forall>j<length st. st' ! j = st ! j)) \<and>
   (i < length st \<and> j < length st \<and> i \<noteq> j \<and> addType_at cl st i type = Inr st'' \<longrightarrow>
      types (st'' ! i) = types (st ! i) @ [entry_of cl type] \<and>
      getProp type ''name'' = JString (name (entry_of cl type)) \<and>
      ignore (st'' ! i) = ignore (st ! i) \<and>
      conversions (st'' ! i) = conversions (st ! i) \<and>
      st'' ! j = st ! j)"
proof (intro conjI impI)
  assume "create st = (i, st')"
  then have i: "i = length st" and st': "st' = st @ [new_instance]"
    by (simp_all add: create_def)
  show "i = length st" by (rule i)
  show "length st' = Suc (length st)" by (simp add: st')
  show "st' ! i = new_instance" by (simp add: i st')
  show "\<forall>j<length st. st' ! j = st ! j" by (simp add: st' nth_append)
next
  assume a: "i < length st \<and> j < length st \<and> i \<noteq> j \<and> addType_at cl st i type = Inr st''"
  then obtain s' where s': "addType cl (st ! i) type = Inr s'" and st'': "st'' = st[i := s']"
    by (auto simp: addType_at_def split: sum.splits)
  from a st'' have nth: "st'' ! i = s'" "st'' ! j = st ! j"
    by simp_all
  show "types (st'' ! i) = types (st ! i) @ [entry_of cl type]"
    using s' nth by (simp add: addType_types)
  show "ignore (st'' ! i) = ignore (st ! i)" "conversions (st'' ! i) = conversions (st ! i)"
    using addType_frame [OF s'] nth by simp_all
  show "st'' ! j = st ! j" by (rule nth)
  from s' have "typeof (getProp type ''name'') = ''string''"
    by (auto simp: addType_def split: if_splits)
  then show "getProp type ''name'' = JString (name (entry_of cl type))"
    by (cases "getProp type ''name''") (simp_all add: entry_of_def)
qed

text \<open>
  C8 on the code: the instance that \<^verbatim>\<open>create\<close> allocates has a registry of types, with
  the built-in entries, and an ignore list, which is empty, but no conversions: its
  property \<^verbatim>\<open>conversions\<close> is \<^verbatim>\<open>undefined\<close>, and \<open>addConversion\<close> with an entry of the
  required shape raises the \<^verbatim>\<open>TypeError\<close> of the language on it.
\<close>

theorem c8_create_without_conversions:
  "create st = (i, st') \<longrightarrow>
     i = length st \<and> st' ! i = new_instance \<and>
     types (st' ! i) = default_types \<and> ignore (st' ! i) = [] \<and>
     conversions (st' ! i) = None \<and>
     (truthy c \<and> typeof (getProp c ''from'') = ''string'' \<and>
      typeof (getProp c ''to'') = ''string'' \<and>
      typeof (getProp c ''convert'') = ''function'' \<longrightarrow>
        addConversion (st' ! i) c = Inl NativeTypeError)"
  by (auto simp: create_def new_instance_def addConversion_def)

text \<open>
  C8 at the first instance of an empty store and the entry
  \<open>{from: "boolean", to: "number", convert: f}\<close>.
\<close>

theorem c8_create_without_conversions_witness:
  "create [] = (0, [new_instance]) \<and>
   conversions ([new_instance] ! 0) = None \<and>
   truthy (JObject [(''from'', JString ''boolean''), (''to'', JString ''number''),
                    (''convert'', JFunction 0 '''' [])]) \<and>
   addConversion ([new_instance] ! 0)
     (JObject [(''from'', JString ''boolean''), (''to'', JString ''number''),
               (''convert'', JFunction 0 '''' [])]) = Inl NativeTypeError"
proof -
  have c: "create [] = (0, [new_instance])"
    by (simp add: create_def)
  from c8_create_without_conversions [where st = "[]" and i = 0 and st' = "[new_instance]"
      and c = "JObject [(''from'', JString ''boolean''), (''to'', JString ''number''),
               (''convert'', JFunction 0 '''' [])]"] c
  show ?thesis by simp
qed

end
